theory Spec2Isabelle
  imports Complex_Main "HOL-Library.AList"
begin

section \<open>PathSense: a shallow embedding of the detection pipeline\<close>

text \<open>
  The theory embeds the Python sources of PathSense (\<^verbatim>\<open>config.py\<close>,
  \<^verbatim>\<open>winter_optimization.py\<close>, \<^verbatim>\<open>ground_detector.py\<close>, \<^verbatim>\<open>haptic_controller.py\<close>
  and \<^verbatim>\<open>main.py\<close>) and proves properties of the embedded functions.

  Conventions of the embedding.
  \<^item> A Python \<^verbatim>\<open>float\<close> is a \<^typ>\<open>real\<close>: distances, thresholds and temperatures are
    exact numbers and arithmetic is exact, where the program rounds every result to
    an IEEE 754 double. The two agree on a comparison unless the exact value lies
    within rounding error of the threshold (so \<open>1.30 - 1.00 > 0.30\<close> is false here and
    true in the program). The properties below do not depend on such a comparison:
    they are about which functions are called and in which order, about stored
    values, or about comparisons of one value with one constant.
  \<^item> A reading is a \<^typ>\<open>real option\<close>: \<^term>\<open>None\<close> is Python's \<^verbatim>\<open>None\<close>.
  \<^item> A dict that the code iterates over (the sensor readings of one cycle) is an
    association list in insertion order; a dict that is only looked up and updated
    by key is a map.
  \<^item> An exception is a value of \<^typ>\<open>'e + 'a\<close> (\<^term>\<open>Inl\<close> the exception).
  \<^item> Durations are natural numbers of milliseconds.
\<close>

subsection \<open>config.py\<close>

record config =
  DANGER_ZONE :: real
  WARNING_ZONE :: real
  ALERT_ZONE :: real
  SCAN_INTERVAL :: real
  SENSORS :: "string list"
  HAPTIC_MOTORS :: "string \<rightharpoonup> nat"
  COLD_TEMP_COMPENSATION :: bool
  SNOW_FILTER_ENABLED :: bool
  DEFAULT_TEMPERATURE :: real
  GROUND_CALIBRATION_SAMPLES :: nat
  POTHOLE_THRESHOLD :: real
  CURB_THRESHOLD :: real
  MAJOR_DROP_THRESHOLD :: real

text \<open>
  The class attributes of \<^verbatim>\<open>Config\<close>. Of the dict \<^verbatim>\<open>SENSORS\<close> only the keys are
  used by the modelled code (the values are GPIO pins of the hardware driver).
\<close>

definition Config :: config where
  "Config =
     \<lparr> DANGER_ZONE = 0.5,
       WARNING_ZONE = 1.5,
       ALERT_ZONE = 3.0,
       SCAN_INTERVAL = 0.1,
       SENSORS = [''front_high'', ''front_center'', ''front_low'', ''left_side'', ''right_side''],
       HAPTIC_MOTORS =
         map_of [(''front_upper'', 12), (''front_center'', 16), (''front_lower'', 20),
                 (''left'', 21), (''right'', 26)],
       COLD_TEMP_COMPENSATION = True,
       SNOW_FILTER_ENABLED = True,
       DEFAULT_TEMPERATURE = 0.0,
       GROUND_CALIBRATION_SAMPLES = 50,
       POTHOLE_THRESHOLD = 0.15,
       CURB_THRESHOLD = 0.10,
       MAJOR_DROP_THRESHOLD = 0.30 \<rparr>"

subsection \<open>Python built-ins used by the code\<close>

datatype py_error = TypeError

text \<open>
  \<^verbatim>\<open>round(x, ndigits)\<close> on a float: the closest multiple of \<open>10\<^sup>-\<^sup>n\<close>, a tie going to the
  even multiple.
\<close>

definition py_round :: "real \<Rightarrow> nat \<Rightarrow> real" where
  "py_round x ndigits =
     (let m = 10 ^ ndigits; y = x * m; f = \<lfloor>y\<rfloor> in
      (if y - of_int f < 1 / 2 then of_int f
       else if y - of_int f > 1 / 2 then of_int (f + 1)
       else if even f then of_int f else of_int (f + 1)) / m)"

text \<open>Truth value of an optional float: \<^verbatim>\<open>None\<close> and \<^verbatim>\<open>0.0\<close> are false.\<close>

definition py_truthy :: "real option \<Rightarrow> bool" where
  "py_truthy v = (case v of None \<Rightarrow> False | Some x \<Rightarrow> x \<noteq> 0)"

text \<open>The slice \<^verbatim>\<open>xs[-n:]\<close> for \<open>n > 0\<close>: the last \<open>n\<close> elements, all of a shorter list.\<close>

definition py_last_n :: "nat \<Rightarrow> 'a list \<Rightarrow> 'a list" where
  "py_last_n n xs = drop (length xs - n) xs"

text \<open>The slice \<^verbatim>\<open>xs[a:-b]\<close> for \<open>b > 0\<close>.\<close>

definition py_slice_between :: "nat \<Rightarrow> nat \<Rightarrow> 'a list \<Rightarrow> 'a list" where
  "py_slice_between a b xs = drop a (take (length xs - b) xs)"

text \<open>One cycle's readings, \<^verbatim>\<open>{sensor_name: distance or None}\<close>, in insertion order.\<close>

type_synonym sensor_dict = "(string \<times> real option) list"

subsection \<open>winter\_optimization.py: the signal conditioner\<close>

record winter_optimizer =
  wo_config :: config
  temperature :: real
  snow_filter_enabled :: bool

definition WinterOptimizer :: "config \<Rightarrow> winter_optimizer" where
  "WinterOptimizer cfg =
     \<lparr> wo_config = cfg, temperature = DEFAULT_TEMPERATURE cfg,
       snow_filter_enabled = SNOW_FILTER_ENABLED cfg \<rparr>"

definition set_temperature :: "winter_optimizer \<Rightarrow> real \<Rightarrow> winter_optimizer" where
  "set_temperature w t = w\<lparr>temperature := t\<rparr>"

text \<open>
  \<^verbatim>\<open>adjust_for_temperature(distance_reading, temperature=None)\<close>. The optional
  argument is a \<^typ>\<open>real option\<close>, \<^term>\<open>None\<close> selecting the optimizer's temperature.
\<close>

definition adjust_for_temperature ::
    "winter_optimizer \<Rightarrow> real option \<Rightarrow> real option \<Rightarrow> real option" where
  "adjust_for_temperature w distance_reading temperature_arg =
     (if \<not> COLD_TEMP_COMPENSATION (wo_config w) then distance_reading
      else case distance_reading of
        None \<Rightarrow> None
      | Some d \<Rightarrow>
          (let temp = (case temperature_arg of None \<Rightarrow> temperature w | Some t \<Rightarrow> t);
               standard_speed = 343.0;
               actual_speed = 331.3 + (0.606 * temp);
               factor = actual_speed / standard_speed;
               compensated_distance = d * factor
           in Some (py_round compensated_distance 2)))"

subsection \<open>winter\_optimization.py: the noise filter\<close>

text \<open>
  \<^verbatim>\<open>_calculate_variance(readings)\<close>. The list may hold \<^verbatim>\<open>None\<close>, which the comprehension
  \<^verbatim>\<open>[r for r in readings if r is not None]\<close> removes.
\<close>

definition calculate_variance :: "real option list \<Rightarrow> real" where
  "calculate_variance readings =
     (if readings = [] \<or> length readings < 2 then 0.0
      else
        let valid_readings = map the (filter (\<lambda>r. r \<noteq> None) readings) in
        if length valid_readings < 2 then 0.0
        else
          let mean = sum_list valid_readings / real (length valid_readings);
              variance = sum_list (map (\<lambda>x. (x - mean) ^ 2) valid_readings)
                           / real (length valid_readings)
          in variance)"

text \<open>
  \<^verbatim>\<open>_is_consistent_obstacle(history, current)\<close>. The list \<^verbatim>\<open>recent\<close> ends with
  \<^verbatim>\<open>current\<close>, so it is never empty and \<^verbatim>\<open>max\<close>, \<^verbatim>\<open>min\<close> cannot raise on it.
\<close>

definition is_consistent_obstacle :: "real list \<Rightarrow> real \<Rightarrow> bool" where
  "is_consistent_obstacle history current =
     (if length history < 3 then False
      else
        let recent = py_last_n 3 history @ [current];
            max_val = Max (set recent);
            min_val = Min (set recent)
        in max_val - min_val < 0.2)"

text \<open>
  The history buffer maps a sensor name to its list of recent readings. The only
  writer of these lists (the detection loop of \<^verbatim>\<open>main.py\<close>) appends a distance only
  when it is not \<^verbatim>\<open>None\<close>, so a history list is a list of floats.

  \<^verbatim>\<open>filter_reading\<close> is the body of the \<^verbatim>\<open>for\<close> loop of \<^verbatim>\<open>filter_snow_particles\<close>: the
  value stored in \<^verbatim>\<open>filtered[sensor_name]\<close>. The indices \<^verbatim>\<open>[-1]\<close> and \<^verbatim>\<open>[-2]\<close> are read
  only where the list has three elements or more.
\<close>

definition filter_reading :: "(string \<rightharpoonup> real list) \<Rightarrow> string \<Rightarrow> real option \<Rightarrow> real option" where
  "filter_reading history_buffer sensor_name current_distance =
     (case current_distance of
        None \<Rightarrow> None
      | Some cur \<Rightarrow>
          (let sensor_history = (case history_buffer sensor_name of None \<Rightarrow> [] | Some h \<Rightarrow> h) in
           if length sensor_history < 3 then Some cur
           else
             let variance = calculate_variance (map Some sensor_history);
                 rate_of_change =
                   (if length sensor_history \<ge> 2
                    then \<bar>sensor_history ! (length sensor_history - 1)
                           - sensor_history ! (length sensor_history - 2)\<bar>
                    else 0)
             in if variance > 0.4 \<or> rate_of_change > 0.5
                then (if is_consistent_obstacle sensor_history cur then Some cur else None)
                else Some cur))"

text \<open>The loop: \<^verbatim>\<open>filtered\<close> starts empty and gets one entry per reading.\<close>

fun filter_loop ::
    "(string \<rightharpoonup> real list) \<Rightarrow> sensor_dict \<Rightarrow> sensor_dict \<Rightarrow> sensor_dict" where
  "filter_loop history_buffer [] filtered = filtered"
| "filter_loop history_buffer ((sensor_name, current_distance) # rest) filtered =
     filter_loop history_buffer rest
       (AList.update sensor_name
          (filter_reading history_buffer sensor_name current_distance) filtered)"

definition filter_snow_particles ::
    "winter_optimizer \<Rightarrow> sensor_dict \<Rightarrow> (string \<rightharpoonup> real list) \<Rightarrow> sensor_dict" where
  "filter_snow_particles w sensor_readings history_buffer =
     (if \<not> snow_filter_enabled w then sensor_readings
      else filter_loop history_buffer sensor_readings [])"

subsection \<open>ground\_detector.py\<close>

record ground_detector =
  gd_config :: config
  baseline_distance :: "real option"
  calibration_readings :: "real list"
  calibrated :: bool

definition GroundDetector :: "config \<Rightarrow> ground_detector" where
  "GroundDetector cfg =
     \<lparr> gd_config = cfg, baseline_distance = None, calibration_readings = [],
       calibrated = False \<rparr>"

text \<open>
  \<^verbatim>\<open>calibrate(readings)\<close>. The mean divides by \<^verbatim>\<open>len(middle_readings)\<close>; lemma
  \<open>middle_readings_nonempty\<close> below shows that this length is never zero, so the
  division cannot raise.
\<close>

definition calibrate :: "ground_detector \<Rightarrow> sensor_dict \<Rightarrow> ground_detector" where
  "calibrate g readings =
     (case map_of readings ''ground_sensor'' of
        None \<Rightarrow> g
      | Some None \<Rightarrow> g
      | Some (Some r) \<Rightarrow>
          (let g1 = g\<lparr>calibration_readings := calibration_readings g @ [r]\<rparr> in
           if length (calibration_readings g1) \<ge> GROUND_CALIBRATION_SAMPLES (gd_config g1) then
             let sorted_readings = sort (calibration_readings g1);
                 trim_count = length sorted_readings div 10;
                 middle_readings =
                   (if trim_count > 0
                    then py_slice_between trim_count trim_count sorted_readings
                    else sorted_readings)
             in g1\<lparr>baseline_distance :=
                      Some (sum_list middle_readings / real (length middle_readings)),
                    calibrated := True\<rparr>
           else g1))"

text \<open>The hazard dicts, one constructor per \<^verbatim>\<open>'type'\<close>.\<close>

datatype hazard =
    drop_off (depth: real) (severity: string) (description: string)
  | raised_surface (height: real) (severity: string) (description: string)
  | slope (change: real) (severity: string) (description: string)

definition classify_drop :: "real \<Rightarrow> string" where
  "classify_drop d =
     (if d < 0.15 then ''Small depression''
      else if d < 0.20 then ''Pothole detected''
      else if d < 0.30 then ''Curb or step down''
      else if d < 0.50 then ''Large drop-off''
      else ''Stairs or major drop - DANGER'')"

definition classify_rise :: "real \<Rightarrow> string" where
  "classify_rise h =
     (if h < 0.10 then ''Small bump or crack''
      else if h < 0.15 then ''Curb detected''
      else if h < 0.20 then ''Step up ahead''
      else ''Stairs or large obstacle'')"

text \<open>
  \<^verbatim>\<open>detect_hazard(current_distance)\<close>. Subtracting a baseline that is still \<^verbatim>\<open>None\<close>
  raises \<^verbatim>\<open>TypeError\<close>.
\<close>

definition detect_hazard :: "ground_detector \<Rightarrow> real option \<Rightarrow> py_error + hazard option" where
  "detect_hazard g current_distance =
     (if \<not> calibrated g \<or> current_distance = None then Inr None
      else case baseline_distance g of
        None \<Rightarrow> Inl TypeError
      | Some baseline \<Rightarrow>
          (let deviation = the current_distance - baseline in
           if deviation > POTHOLE_THRESHOLD (gd_config g) then
             (let severity = (if deviation > MAJOR_DROP_THRESHOLD (gd_config g)
                              then ''critical'' else ''warning'')
              in Inr (Some (drop_off deviation severity (classify_drop deviation))))
           else if deviation < - CURB_THRESHOLD (gd_config g) then
             Inr (Some (raised_surface \<bar>deviation\<bar> ''warning'' (classify_rise \<bar>deviation\<bar>)))
           else if \<bar>deviation\<bar> > 0.05 then
             Inr (Some (slope deviation ''info'' ''Sloped surface detected''))
           else Inr None))"

subsection \<open>haptic\_controller.py\<close>

text \<open>
  \<^verbatim>\<open>alert\<close> starts a daemon thread that runs \<^verbatim>\<open>_vibrate_pattern\<close> and shares a control
  dict \<^verbatim>\<open>{'stop': bool}\<close> with the table \<^verbatim>\<open>active_alerts\<close>. The embedding makes both
  explicit:
  \<^item> \<open>controls\<close> is the store of control dicts: a reference is an index, the entry is
    the value of \<^verbatim>\<open>control['stop']\<close>; a new dict is allocated at the end;
  \<^item> \<open>threads\<close> holds every thread started so far, with the place in
    \<^verbatim>\<open>_vibrate_pattern\<close> where it waits and the time at which its \<^verbatim>\<open>time.sleep\<close> ends;
  \<^item> \<open>clock\<close> is the time in milliseconds. A thread runs when its sleep has ended;
    threads whose sleeps end in the same millisecond run in the order of their
    creation.
\<close>

datatype position = loop_head | after_on | finished

record vibration_thread =
  th_motor_name :: string
  th_intensity :: string
  th_pattern :: string
  th_control :: nat
  th_position :: position
  th_wake :: nat

record haptic_controller =
  hc_config :: config
  motors :: "string \<rightharpoonup> nat"
  active_alerts :: "string \<rightharpoonup> nat"
  motor_states :: "string \<rightharpoonup> bool"
  controls :: "bool list"
  threads :: "vibration_thread list"
  clock :: nat

definition HapticController :: "config \<Rightarrow> haptic_controller" where
  "HapticController cfg =
     \<lparr> hc_config = cfg,
       motors = HAPTIC_MOTORS cfg,
       active_alerts = Map.empty,
       motor_states = (\<lambda>name. if HAPTIC_MOTORS cfg name = None then None else Some False),
       controls = [],
       threads = [],
       clock = 0 \<rparr>"

definition sensor_to_motor :: "string \<Rightarrow> string" where
  "sensor_to_motor sensor_name =
     (case map_of
        [(''front_high'', ''front_upper''),
         (''front_center'', ''front_center''),
         (''front_low'', ''front_lower''),
         (''left_side'', ''left''),
         (''right_side'', ''right''),
         (''ground_sensor'', ''front_lower'')] sensor_name of
        Some motor_name \<Rightarrow> motor_name
      | None \<Rightarrow> ''front_center'')"

text \<open>
  \<^verbatim>\<open>_motor_on\<close> and \<^verbatim>\<open>_motor_off\<close>: the GPIO write and the console line are outside
  the model, the entry of \<^verbatim>\<open>motor_states\<close> is the observable state of the actuator.
\<close>

definition motor_on :: "haptic_controller \<Rightarrow> string \<Rightarrow> real \<Rightarrow> haptic_controller" where
  "motor_on hc motor_name strength =
     (if motors hc motor_name = None then hc
      else hc\<lparr>motor_states := (motor_states hc)(motor_name \<mapsto> True)\<rparr>)"

definition motor_off :: "haptic_controller \<Rightarrow> string \<Rightarrow> haptic_controller" where
  "motor_off hc motor_name =
     (if motors hc motor_name = None then hc
      else hc\<lparr>motor_states := (motor_states hc)(motor_name \<mapsto> False)\<rparr>)"

text \<open>The tables of \<^verbatim>\<open>_vibrate_pattern\<close>: (on, off) times in milliseconds, and strengths.\<close>

definition patterns_get :: "string \<Rightarrow> nat \<times> nat" where
  "patterns_get pattern =
     (case map_of [(''rapid'', (100, 100)), (''pulse'', (300, 300)),
                   (''intermittent'', (200, 800))] pattern of
        Some p \<Rightarrow> p
      | None \<Rightarrow> (300, 300))"

definition intensities_get :: "string \<Rightarrow> real" where
  "intensities_get intensity =
     (case map_of [(''low'', 0.3), (''medium'', 0.6), (''high'', 1.0)] intensity of
        Some v \<Rightarrow> v
      | None \<Rightarrow> 0.6)"

text \<open>
  \<^verbatim>\<open>_vibrate_pattern\<close>, from the place where the thread waits to its next
  \<^verbatim>\<open>time.sleep\<close> or to its return:
  \<^item> at \<open>loop_head\<close> (the thread has just started, or its off-time sleep has ended)
    it tests \<^verbatim>\<open>while not control['stop']\<close>, and either switches the motor on and
    sleeps for the on-time, or leaves the loop, switches the motor off and returns;
  \<^item> at \<open>after_on\<close> (the on-time sleep has ended) it tests \<^verbatim>\<open>if control['stop']: break\<close>,
    and either leaves the loop, switches the motor off and returns, or switches the
    motor off and sleeps for the off-time.
  The control of a thread is allocated by \<^verbatim>\<open>alert\<close> before the thread is created.
\<close>

definition vibrate_pattern ::
    "haptic_controller \<Rightarrow> vibration_thread \<Rightarrow> haptic_controller \<times> vibration_thread" where
  "vibrate_pattern hc t =
     (let (on_time, off_time) = patterns_get (th_pattern t);
          strength = intensities_get (th_intensity t);
          control_stop = controls hc ! th_control t
      in case th_position t of
           loop_head \<Rightarrow>
             if \<not> control_stop
             then (motor_on hc (th_motor_name t) strength,
                   t\<lparr>th_position := after_on, th_wake := clock hc + on_time\<rparr>)
             else (motor_off hc (th_motor_name t), t\<lparr>th_position := finished\<rparr>)
         | after_on \<Rightarrow>
             if control_stop
             then (motor_off hc (th_motor_name t), t\<lparr>th_position := finished\<rparr>)
             else (motor_off hc (th_motor_name t),
                   t\<lparr>th_position := loop_head, th_wake := clock hc + off_time\<rparr>)
         | finished \<Rightarrow> (hc, t))"

text \<open>One millisecond: every thread whose sleep has ended runs once.\<close>

fun run_threads ::
    "haptic_controller \<Rightarrow> vibration_thread list \<Rightarrow> haptic_controller \<times> vibration_thread list" where
  "run_threads hc [] = (hc, [])"
| "run_threads hc (t # ts) =
     (if th_position t \<noteq> finished \<and> th_wake t \<le> clock hc then
        (let (hc1, t1) = vibrate_pattern hc t;
             (hc2, ts2) = run_threads hc1 ts
         in (hc2, t1 # ts2))
      else
        (let (hc2, ts2) = run_threads hc ts in (hc2, t # ts2)))"

definition tick_ms :: "haptic_controller \<Rightarrow> haptic_controller" where
  "tick_ms hc =
     (let (hc1, ts1) = run_threads hc (threads hc)
      in hc1\<lparr>threads := ts1, clock := clock hc + 1\<rparr>)"

text \<open>
  \<^verbatim>\<open>time.sleep\<close> in the calling thread, for a number of milliseconds: the vibration
  threads run during the milliseconds \<open>clock\<close> to \<open>clock + n - 1\<close>, and the caller goes
  on at \<open>clock + n\<close>, before the threads whose sleep ends at that instant. A sleep
  lasts exactly its duration (Python promises no less).
\<close>

fun time_sleep :: "nat \<Rightarrow> haptic_controller \<Rightarrow> haptic_controller" where
  "time_sleep 0 hc = hc"
| "time_sleep (Suc n) hc = time_sleep n (tick_ms hc)"

definition alert :: "haptic_controller \<Rightarrow> string \<Rightarrow> string \<Rightarrow> string \<Rightarrow> haptic_controller" where
  "alert hc sensor_name intensity pattern =
     (let motor_name = sensor_to_motor sensor_name in
      if motors hc motor_name = None then hc
      else
        let hc1 = (case active_alerts hc motor_name of
                     Some r \<Rightarrow> time_sleep 50 (hc\<lparr>controls := (controls hc)[r := True]\<rparr>)
                   | None \<Rightarrow> hc);
            alert_control = length (controls hc1);
            alert_thread =
              \<lparr> th_motor_name = motor_name, th_intensity = intensity, th_pattern = pattern,
                th_control = alert_control, th_position = loop_head, th_wake = clock hc1 \<rparr>
        in hc1\<lparr>controls := controls hc1 @ [False],
               threads := threads hc1 @ [alert_thread],
               active_alerts := (active_alerts hc1)(motor_name \<mapsto> alert_control)\<rparr>)"

definition stop :: "haptic_controller \<Rightarrow> string \<Rightarrow> haptic_controller" where
  "stop hc sensor_name =
     (let motor_name = sensor_to_motor sensor_name in
      case active_alerts hc motor_name of
        Some r \<Rightarrow> motor_off (hc\<lparr>controls := (controls hc)[r := True]\<rparr>) motor_name
      | None \<Rightarrow> hc)"

text \<open>
  The sessions that run on a channel: the threads for that motor that have not
  returned from \<^verbatim>\<open>_vibrate_pattern\<close>.
\<close>

definition running_sessions :: "haptic_controller \<Rightarrow> string \<Rightarrow> vibration_thread list" where
  "running_sessions hc motor_name =
     filter (\<lambda>t. th_motor_name t = motor_name \<and> th_position t \<noteq> finished) (threads hc)"

subsection \<open>main.py\<close>

text \<open>
  The state of \<^verbatim>\<open>PathSense\<close> together with the two locals of \<^verbatim>\<open>_detection_loop\<close> that
  live across iterations (\<^verbatim>\<open>calibration_count\<close>, \<^verbatim>\<open>sensor_history\<close>). The data logger
  writes files; of it the model keeps the calls: \<open>events\<close> lists the arguments of
  \<^verbatim>\<open>log_event\<close> and \<open>sensor_log\<close> those of \<^verbatim>\<open>log_sensor_data\<close>. Console output is left out.
\<close>

datatype log_payload = logged_distance real | logged_hazard hazard

record path_sense =
  ps_config :: config
  haptic :: haptic_controller
  ground :: ground_detector
  winter :: winter_optimizer
  total_detections :: nat
  events :: "(string \<times> string \<times> log_payload) list"
  sensor_log :: "sensor_dict list"
  calibration_count :: nat
  sensor_history :: "string \<rightharpoonup> real list"

text \<open>
  \<^verbatim>\<open>__init__\<close>, and the first line of \<^verbatim>\<open>_detection_loop\<close>:
  \<^verbatim>\<open>sensor_history = {name: [] for name in self.config.SENSORS}\<close>.
\<close>

definition PathSense :: "config \<Rightarrow> path_sense" where
  "PathSense cfg =
     \<lparr> ps_config = cfg,
       haptic = HapticController cfg,
       ground = GroundDetector cfg,
       winter = WinterOptimizer cfg,
       total_detections = 0,
       events = [],
       sensor_log = [],
       calibration_count = 0,
       sensor_history = (\<lambda>name. if name \<in> set (SENSORS cfg) then Some [] else None) \<rparr>"

text \<open>
  \<^verbatim>\<open>_process_obstacle(sensor_name, distance)\<close>, called with a float. The conditioner
  returns a float for a float (lemma \<open>adjust_for_temperature_Some\<close>), so the
  comparisons never meet \<^verbatim>\<open>None\<close>.
\<close>

definition process_obstacle :: "path_sense \<Rightarrow> string \<Rightarrow> real \<Rightarrow> path_sense" where
  "process_obstacle s sensor_name distance0 =
     (let distance = the (adjust_for_temperature (winter s) (Some distance0) None) in
      if distance < DANGER_ZONE (ps_config s) then
        s\<lparr>haptic := alert (haptic s) sensor_name ''high'' ''rapid'',
          events := events s @ [(''danger'', sensor_name, logged_distance distance)],
          total_detections := total_detections s + 1\<rparr>
      else if distance < WARNING_ZONE (ps_config s) then
        s\<lparr>haptic := alert (haptic s) sensor_name ''medium'' ''pulse'',
          events := events s @ [(''warning'', sensor_name, logged_distance distance)]\<rparr>
      else if distance < ALERT_ZONE (ps_config s) then
        s\<lparr>haptic := alert (haptic s) sensor_name ''low'' ''intermittent'',
          events := events s @ [(''alert'', sensor_name, logged_distance distance)]\<rparr>
      else
        s\<lparr>haptic := stop (haptic s) sensor_name\<rparr>)"

definition process_ground_hazard :: "path_sense \<Rightarrow> hazard \<Rightarrow> path_sense" where
  "process_ground_hazard s hz =
     (let sensor_name = ''ground_sensor'' in
      if severity hz = ''critical'' then
        s\<lparr>haptic := alert (haptic s) ''front_lower'' ''high'' ''rapid'',
          events := events s @ [(''ground_critical'', sensor_name, logged_hazard hz)]\<rparr>
      else if severity hz = ''warning'' then
        s\<lparr>haptic := alert (haptic s) ''front_lower'' ''medium'' ''pulse'',
          events := events s @ [(''ground_warning'', sensor_name, logged_hazard hz)]\<rparr>
      else
        s\<lparr>haptic := alert (haptic s) ''front_lower'' ''low'' ''intermittent''\<rparr>)"

text \<open>
  The test \<^verbatim>\<open>'ground_sensor' in sensor_data and sensor_data['ground_sensor']\<close>.
\<close>

definition ground_reading_truthy :: "sensor_dict \<Rightarrow> bool" where
  "ground_reading_truthy sensor_data =
     (case map_of sensor_data ''ground_sensor'' of
        None \<Rightarrow> False
      | Some v \<Rightarrow> py_truthy v)"

text \<open>The loop \<^verbatim>\<open># Update sensor history\<close> of \<^verbatim>\<open>_detection_loop\<close>.\<close>

fun update_history :: "sensor_dict \<Rightarrow> (string \<rightharpoonup> real list) \<Rightarrow> (string \<rightharpoonup> real list)" where
  "update_history [] hist = hist"
| "update_history ((sensor_name, distance) # rest) hist =
     (case distance of
        None \<Rightarrow> update_history rest hist
      | Some d \<Rightarrow>
          (let hist1 = (if hist sensor_name = None then hist(sensor_name \<mapsto> []) else hist);
               hist2 = hist1(sensor_name \<mapsto> the (hist1 sensor_name) @ [d]);
               hist3 = hist2(sensor_name \<mapsto> py_last_n 5 (the (hist2 sensor_name)))
           in update_history rest hist3))"

text \<open>The loop \<^verbatim>\<open># Process upper-body obstacles\<close> of \<^verbatim>\<open>_detection_loop\<close>.\<close>

fun process_obstacles :: "path_sense \<Rightarrow> sensor_dict \<Rightarrow> path_sense" where
  "process_obstacles s [] = s"
| "process_obstacles s ((sensor_name, distance) # rest) =
     (if sensor_name \<noteq> ''ground_sensor'' \<and> distance \<noteq> None
      then process_obstacles (process_obstacle s sensor_name (the distance)) rest
      else process_obstacles s rest)"

definition seconds_ms :: "real \<Rightarrow> nat" where
  "seconds_ms x = nat \<lfloor>x * 1000\<rfloor>"

text \<open>
  One iteration of the \<^verbatim>\<open>while\<close> loop of \<^verbatim>\<open>_detection_loop\<close>; \<open>sensor_data0\<close> is what
  \<^verbatim>\<open>read_all_sensors()\<close> returned. The only statement of the \<^verbatim>\<open>try\<close> block that can raise
  in the model is \<^verbatim>\<open>detect_hazard\<close>; the handler prints and sleeps for half a second,
  and what the iteration did before stays done.
\<close>

definition detection_iteration :: "path_sense \<Rightarrow> sensor_dict \<Rightarrow> path_sense" where
  "detection_iteration s sensor_data0 =
     (let s1 = (if \<not> calibrated (ground s) \<and> calibration_count s < 50
                   \<and> ground_reading_truthy sensor_data0
                then s\<lparr>ground := calibrate (ground s) sensor_data0,
                       calibration_count := calibration_count s + 1\<rparr>
                else s);
          sensor_data = (if SNOW_FILTER_ENABLED (ps_config s1)
                         then filter_snow_particles (winter s1) sensor_data0 (sensor_history s1)
                         else sensor_data0);
          s2 = s1\<lparr>sensor_history := update_history sensor_data (sensor_history s1)\<rparr>;
          s3 = process_obstacles s2 sensor_data;
          s4 = (if ground_reading_truthy sensor_data
                then (case detect_hazard (ground s3) (the (map_of sensor_data ''ground_sensor'')) of
                        Inl e \<Rightarrow> Inl e
                      | Inr None \<Rightarrow> Inr s3
                      | Inr (Some hz) \<Rightarrow> Inr (process_ground_hazard s3 hz))
                else Inr s3)
      in case s4 of
           Inl e \<Rightarrow> s3\<lparr>haptic := time_sleep 500 (haptic s3)\<rparr>
         | Inr s5 \<Rightarrow>
             s5\<lparr>sensor_log := sensor_log s5 @ [sensor_data],
                haptic := time_sleep (seconds_ms (SCAN_INTERVAL (ps_config s5))) (haptic s5)\<rparr>)"

text \<open>The loop, for the readings of successive iterations.\<close>

fun detection_loop :: "path_sense \<Rightarrow> sensor_dict list \<Rightarrow> path_sense" where
  "detection_loop s [] = s"
| "detection_loop s (sensor_data # rest) = detection_loop (detection_iteration s sensor_data) rest"

subsection \<open>Test inputs\<close>

text \<open>
  Feeding a list of ground readings to the calibrator, one call of \<^verbatim>\<open>calibrate\<close> per
  reading, each in a readings dict of its own.
\<close>

fun feed_samples :: "ground_detector \<Rightarrow> real list \<Rightarrow> ground_detector" where
  "feed_samples g [] = g"
| "feed_samples g (x # xs) = feed_samples (calibrate g [(''ground_sensor'', Some x)]) xs"

text \<open>The detector after fifty readings of 1.00.\<close>

definition flat_ground :: ground_detector where
  "flat_ground = feed_samples (GroundDetector Config) (replicate 50 1.00)"

subsection \<open>Scenarios\<close>

text \<open>
  What the scenarios below look at in a controller, for one motor: the threads, the
  store of stop flags, the time, the state of the motor, and the motor's entries in
  \<^verbatim>\<open>active_alerts\<close> and \<^verbatim>\<open>motors\<close>.
\<close>

definition observe ::
    "haptic_controller \<Rightarrow> string \<Rightarrow>
       vibration_thread list \<times> bool list \<times> nat \<times> bool option \<times> nat option \<times> nat option" where
  "observe hc motor_name =
     (threads hc, controls hc, clock hc, motor_states hc motor_name,
      active_alerts hc motor_name, motors hc motor_name)"

text \<open>
  A fresh controller on which \<^verbatim>\<open>alert('front_center', 'medium', 'pulse')\<close> was called and
  0.1 s (one scan interval) have passed: the pulse pattern is in its first on-time.
\<close>

definition pulse_running :: haptic_controller where
  "pulse_running =
     time_sleep 100 (alert (HapticController Config) ''front_center'' ''medium'' ''pulse'')"

text \<open>
  The readings of one detection cycle, as \<^verbatim>\<open>read_all_sensors\<close> returns them: the five
  upper-body sensors in the order of \<^verbatim>\<open>Config.SENSORS\<close>, then the ground sensor. All
  are out of range of every zone (3.50 m) and the ground is flat, but for the reading of
  \<^verbatim>\<open>front_center\<close>.
\<close>

definition cycle_readings :: "real option \<Rightarrow> sensor_dict" where
  "cycle_readings v =
     [(''front_high'', Some 3.50), (''front_center'', v), (''front_low'', Some 3.50),
      (''left_side'', Some 3.50), (''right_side'', Some 3.50), (''ground_sensor'', Some 1.00)]"

text \<open>The system after a first cycle that saw an obstacle at 0.30 m in front.\<close>

definition danger_seen :: path_sense where
  "danger_seen = detection_iteration (PathSense Config) (cycle_readings (Some 0.30))"

text \<open>The system after a first cycle that saw an obstacle at 1.00 m in front.\<close>

definition first_cycle :: path_sense where
  "first_cycle = detection_iteration (PathSense Config) (cycle_readings (Some 1.00))"

text \<open>The system after five cycles with nothing in range.\<close>

definition five_cycles :: path_sense where
  "five_cycles =
     detection_loop (PathSense Config)
       [cycle_readings (Some 3.50), cycle_readings (Some 3.51), cycle_readings (Some 3.52),
        cycle_readings (Some 3.53), cycle_readings (Some 3.54)]"

text \<open>The bound on the history lists.\<close>

definition bounded_history :: "(string \<rightharpoonup> real list) \<Rightarrow> bool" where
  "bounded_history hist = (\<forall>n h. hist n = Some h \<longrightarrow> length h \<le> 5)"

section \<open>Properties\<close>

subsection \<open>Ground calibrator\<close>

text \<open>The divisor of the mean is never zero: the middle readings are never empty.\<close>

lemma middle_readings_nonempty:
  assumes "xs \<noteq> []"
  shows "(let sorted_readings = sort xs; trim_count = length sorted_readings div 10
          in if trim_count > 0 then py_slice_between trim_count trim_count sorted_readings
             else sorted_readings) \<noteq> []"
proof -
  define n where "n = length xs"
  define d where "d = n div 10"
  have "10 * d \<le> n" by (simp add: d_def)
  moreover have "0 < n" using assms by (simp add: n_def)
  ultimately have "0 < n - d - d" by linarith
  then have "length (py_slice_between d d (sort xs)) > 0"
    by (simp add: py_slice_between_def n_def)
  then have "py_slice_between d d (sort xs) \<noteq> []" by blast
  moreover have "sort xs \<noteq> []"
    using assms by (metis length_sort length_0_conv)
  ultimately show ?thesis
    by (simp add: Let_def d_def n_def)
qed

lemma feed_samples_append:
  "feed_samples g (xs @ ys) = feed_samples (feed_samples g xs) ys"
  by (induction xs arbitrary: g) auto

lemma calibrate_accumulates:
  assumes "length (calibration_readings g) + 1 < GROUND_CALIBRATION_SAMPLES (gd_config g)"
  shows "calibrate g [(''ground_sensor'', Some x)] = g\<lparr>calibration_readings := calibration_readings g @ [x]\<rparr>"
  using assms by (simp add: calibrate_def Let_def)

lemma feed_samples_short:
  assumes "length xs < 50"
  shows "feed_samples (GroundDetector Config) xs = (GroundDetector Config)\<lparr>calibration_readings := xs\<rparr>"
  using assms
proof (induction xs rule: rev_induct)
  case Nil
  then show ?case by (simp add: GroundDetector_def)
next
  case (snoc x xs)
  then have "feed_samples (GroundDetector Config) xs = (GroundDetector Config)\<lparr>calibration_readings := xs\<rparr>"
    by simp
  moreover have "calibrate ((GroundDetector Config)\<lparr>calibration_readings := xs\<rparr>) [(''ground_sensor'', Some x)]
      = (GroundDetector Config)\<lparr>calibration_readings := xs @ [x]\<rparr>"
    using snoc.prems by (simp add: calibrate_accumulates GroundDetector_def Config_def)
  ultimately show ?case by (simp add: feed_samples_append)
qed

lemma calibrate_fiftieth:
  assumes "GROUND_CALIBRATION_SAMPLES (gd_config g) = 50"
    and "length (calibration_readings g) = 49"
  shows "calibrate g [(''ground_sensor'', Some x)] =
     g\<lparr>calibration_readings := calibration_readings g @ [x],
       baseline_distance := Some (sum_list (take 40 (drop 5 (sort (calibration_readings g @ [x])))) / 40),
       calibrated := True\<rparr>"
proof -
  let ?s = "sort (calibration_readings g @ [x])"
  have len: "length ?s = 50" using assms by simp
  have mid: "py_slice_between 5 5 ?s = take 40 (drop 5 ?s)"
    using len by (simp add: py_slice_between_def drop_take)
  have l40: "length (take 40 (drop 5 ?s)) = 40" using len by simp
  show ?thesis
    using assms len mid l40 by (simp add: calibrate_def Let_def)
qed

lemma feed_samples_fifty:
  assumes "length samples = 50"
  shows "feed_samples (GroundDetector Config) samples =
     \<lparr> gd_config = Config,
       baseline_distance = Some (sum_list (take 40 (drop 5 (sort samples))) / 40),
       calibration_readings = samples,
       calibrated = True \<rparr>"
proof -
  from assms obtain ys y where s: "samples = ys @ [y]" and ly: "length ys = 49"
    by (cases samples rule: rev_cases) auto
  have "feed_samples (GroundDetector Config) ys = (GroundDetector Config)\<lparr>calibration_readings := ys\<rparr>"
    using ly by (simp add: feed_samples_short)
  then have "feed_samples (GroundDetector Config) samples
      = calibrate ((GroundDetector Config)\<lparr>calibration_readings := ys\<rparr>) [(''ground_sensor'', Some y)]"
    by (simp add: s feed_samples_append)
  also have "\<dots> = (GroundDetector Config)\<lparr>calibration_readings := ys @ [y],
       baseline_distance := Some (sum_list (take 40 (drop 5 (sort (ys @ [y])))) / 40),
       calibrated := True\<rparr>"
    using calibrate_fiftieth [of "(GroundDetector Config)\<lparr>calibration_readings := ys\<rparr>" y] ly
    by (simp add: GroundDetector_def Config_def)
  finally show ?thesis by (simp add: s GroundDetector_def)
qed

lemma sum_list_constant:
  assumes "\<forall>x \<in> set xs. x = (c::real)"
  shows "sum_list xs = real (length xs) * c"
  using assms by (induction xs) (simp_all add: distrib_right)

subsection \<open>Ground hazard classifier\<close>

lemma flat_ground_state:
  "flat_ground = \<lparr> gd_config = Config, baseline_distance = Some 1.00,
       calibration_readings = replicate 50 1.00, calibrated = True \<rparr>"
proof -
  have "set (take 40 (drop 5 (sort (replicate 50 (1.00::real))))) \<subseteq> set (replicate 50 1.00)"
    using set_take_subset [of 40 "drop 5 (sort (replicate 50 (1.00::real)))"]
      set_drop_subset [of 5 "sort (replicate 50 (1.00::real))"]
    by auto
  then have "\<forall>x \<in> set (take 40 (drop 5 (sort (replicate 50 (1.00::real))))). x = 1.00"
    by auto
  then have "sum_list (take 40 (drop 5 (sort (replicate 50 (1.00::real)))))
      = real (length (take 40 (drop 5 (sort (replicate 50 (1.00::real)))))) * 1.00"
    by (rule sum_list_constant)
  then have "sum_list (take 40 (drop 5 (sort (replicate 50 (1.00::real))))) / 40 = 1.00"
    by simp
  then show ?thesis
    by (simp add: flat_ground_def feed_samples_fifty)
qed

text \<open>
  Claim C10. Every drop-off the classifier returns is deeper than 0.15, so its
  description is never \<^verbatim>\<open>Small depression\<close>: it is one of the four other descriptions.
\<close>

theorem drop_off_depth_above_threshold:
  assumes "gd_config g = Config"
    and "detect_hazard g r = Inr (Some (drop_off d sev desc))"
  shows "d > 0.15
    \<and> desc \<noteq> ''Small depression''
    \<and> (desc = ''Pothole detected'' \<or> desc = ''Curb or step down''
        \<or> desc = ''Large drop-off'' \<or> desc = ''Stairs or major drop - DANGER'')"
  using assms
  by (auto simp: detect_hazard_def Config_def Let_def classify_drop_def
           split: if_splits option.splits)

theorem drop_off_depth_above_threshold_witness:
  "gd_config flat_ground = Config
   \<and> detect_hazard flat_ground (Some 1.16) = Inr (Some (drop_off 0.16 ''warning'' ''Pothole detected''))
   \<and> (0.16::real) > 0.15 \<and> ''Pothole detected'' \<noteq> ''Small depression''"
proof -
  have c: "gd_config flat_ground = Config"
    by (simp add: flat_ground_state)
  have d: "detect_hazard flat_ground (Some 1.16) = Inr (Some (drop_off 0.16 ''warning'' ''Pothole detected''))"
    by (simp add: flat_ground_state detect_hazard_def Config_def Let_def classify_drop_def)
  from drop_off_depth_above_threshold [OF c d] c d show ?thesis by simp
qed

subsection \<open>Noise filter\<close>

lemma update_fresh:
  assumes "k \<notin> fst ` set al"
  shows "AList.update k v al = al @ [(k, v)]"
  using assms by (induction al) auto

lemma filter_loop_distinct:
  assumes "distinct (map fst rs)" and "fst ` set rs \<inter> fst ` set acc = {}"
  shows "filter_loop hb rs acc = acc @ map (\<lambda>(k, c). (k, filter_reading hb k c)) rs"
  using assms
proof (induction rs arbitrary: acc)
  case Nil
  then show ?case by simp
next
  case (Cons p rs)
  obtain k c where p: "p = (k, c)" by (cases p)
  have fresh: "k \<notin> fst ` set acc" using Cons.prems p by auto
  have d: "distinct (map fst rs)" using Cons.prems by simp
  have disj: "fst ` set rs \<inter> fst ` set (acc @ [(k, filter_reading hb k c)]) = {}"
    using Cons.prems p by auto
  show ?case
    using Cons.IH [OF d disj] by (simp add: p update_fresh [OF fresh])
qed

lemma filter_snow_particles_enabled:
  assumes "distinct (map fst rs)" and "snow_filter_enabled w"
  shows "filter_snow_particles w rs hb = map (\<lambda>(k, c). (k, filter_reading hb k c)) rs"
  using assms filter_loop_distinct [of rs "[]" hb] by (simp add: filter_snow_particles_def)

lemma filter_reading_cases: "filter_reading hb k c = c \<or> filter_reading hb k c = None"
  by (auto simp: filter_reading_def Let_def split: option.splits)

subsection \<open>Haptic controller\<close>

text \<open>
  A sleeping caller lets the vibration threads run; they write motor states only.
\<close>

lemma vibrate_pattern_fields:
  "controls (fst (vibrate_pattern hc t)) = controls hc"
  "active_alerts (fst (vibrate_pattern hc t)) = active_alerts hc"
  "motors (fst (vibrate_pattern hc t)) = motors hc"
  "clock (fst (vibrate_pattern hc t)) = clock hc"
  by (simp_all add: vibrate_pattern_def motor_on_def motor_off_def Let_def
        split: prod.split position.split)

lemma run_threads_fields:
  "controls (fst (run_threads hc ts)) = controls hc"
  "active_alerts (fst (run_threads hc ts)) = active_alerts hc"
  "motors (fst (run_threads hc ts)) = motors hc"
  "clock (fst (run_threads hc ts)) = clock hc"
  "length (snd (run_threads hc ts)) = length ts"
  by (induction ts arbitrary: hc) (simp_all add: split_beta vibrate_pattern_fields)

lemma tick_ms_fields:
  "controls (tick_ms hc) = controls hc"
  "active_alerts (tick_ms hc) = active_alerts hc"
  "motors (tick_ms hc) = motors hc"
  "clock (tick_ms hc) = clock hc + 1"
  "length (threads (tick_ms hc)) = length (threads hc)"
  by (simp_all add: tick_ms_def split_beta run_threads_fields)

lemma time_sleep_fields:
  "controls (time_sleep n hc) = controls hc"
  "active_alerts (time_sleep n hc) = active_alerts hc"
  "motors (time_sleep n hc) = motors hc"
  "clock (time_sleep n hc) = clock hc + n"
  "length (threads (time_sleep n hc)) = length (threads hc)"
  by (induction n arbitrary: hc) (simp_all add: tick_ms_fields)

text \<open>
  Claim C2, as the code has it. \<^verbatim>\<open>alert\<close> never compares the requested pattern and
  intensity with those of the running session. Whenever the channel's motor exists and
  has an entry in \<^verbatim>\<open>active_alerts\<close>, whatever the pattern and intensity asked for, the
  call sets the stop flag of that entry's control, sleeps for 50 ms, and starts a new
  thread at the head of its pattern loop with a new control whose flag is clear; the
  new control replaces the old one in \<^verbatim>\<open>active_alerts\<close>.
\<close>

theorem alert_replaces_running_session:
  assumes "motors hc (sensor_to_motor sensor_name) \<noteq> None"
    and "active_alerts hc (sensor_to_motor sensor_name) = Some r"
    and "r < length (controls hc)"
  shows "(let hc' = alert hc sensor_name intensity pattern;
              new = length (controls hc)
          in controls hc' ! r = True
           \<and> active_alerts hc' (sensor_to_motor sensor_name) = Some new
           \<and> new \<noteq> r
           \<and> controls hc' ! new = False
           \<and> length (threads hc') = length (threads hc) + 1
           \<and> last (threads hc') =
                \<lparr> th_motor_name = sensor_to_motor sensor_name, th_intensity = intensity,
                  th_pattern = pattern, th_control = new, th_position = loop_head,
                  th_wake = clock hc + 50 \<rparr>
           \<and> clock hc' = clock hc + 50)"
  using assms
  by (auto simp: alert_def Let_def time_sleep_fields nth_append)

lemma observe_pulse_running:
  "observe pulse_running ''front_center'' =
     ([\<lparr>th_motor_name = ''front_center'', th_intensity = ''medium'', th_pattern = ''pulse'',
        th_control = 0, th_position = after_on, th_wake = 300\<rparr>],
      [False], 100, Some True, Some 0, Some 16)"
  unfolding pulse_running_def by code_simp

lemma observe_same_alert:
  "(let hc = alert pulse_running ''front_center'' ''medium'' ''pulse''
    in (observe hc ''front_center'', observe (time_sleep 151 hc) ''front_center'')) =
     (([\<lparr>th_motor_name = ''front_center'', th_intensity = ''medium'', th_pattern = ''pulse'',
         th_control = 0, th_position = after_on, th_wake = 300\<rparr>,
        \<lparr>th_motor_name = ''front_center'', th_intensity = ''medium'', th_pattern = ''pulse'',
         th_control = 1, th_position = loop_head, th_wake = 150\<rparr>],
       [True, False], 150, Some True, Some 1, Some 16),
      ([\<lparr>th_motor_name = ''front_center'', th_intensity = ''medium'', th_pattern = ''pulse'',
         th_control = 0, th_position = finished, th_wake = 300\<rparr>,
        \<lparr>th_motor_name = ''front_center'', th_intensity = ''medium'', th_pattern = ''pulse'',
         th_control = 1, th_position = after_on, th_wake = 450\<rparr>],
       [True, False], 301, Some False, Some 1, Some 16))"
  unfolding pulse_running_def by code_simp

lemma observe_other_alert:
  "(let hc = alert pulse_running ''front_center'' ''low'' ''intermittent''
    in (observe hc ''front_center'', observe (time_sleep 1 hc) ''front_center'',
        observe (time_sleep 151 hc) ''front_center'')) =
     (([\<lparr>th_motor_name = ''front_center'', th_intensity = ''medium'', th_pattern = ''pulse'',
         th_control = 0, th_position = after_on, th_wake = 300\<rparr>,
        \<lparr>th_motor_name = ''front_center'', th_intensity = ''low'', th_pattern = ''intermittent'',
         th_control = 1, th_position = loop_head, th_wake = 150\<rparr>],
       [True, False], 150, Some True, Some 1, Some 16),
      ([\<lparr>th_motor_name = ''front_center'', th_intensity = ''medium'', th_pattern = ''pulse'',
         th_control = 0, th_position = after_on, th_wake = 300\<rparr>,
        \<lparr>th_motor_name = ''front_center'', th_intensity = ''low'', th_pattern = ''intermittent'',
         th_control = 1, th_position = after_on, th_wake = 350\<rparr>],
       [True, False], 151, Some True, Some 1, Some 16),
      ([\<lparr>th_motor_name = ''front_center'', th_intensity = ''medium'', th_pattern = ''pulse'',
         th_control = 0, th_position = finished, th_wake = 300\<rparr>,
        \<lparr>th_motor_name = ''front_center'', th_intensity = ''low'', th_pattern = ''intermittent'',
         th_control = 1, th_position = after_on, th_wake = 350\<rparr>],
       [True, False], 301, Some False, Some 1, Some 16))"
  unfolding pulse_running_def by code_simp

lemma sensor_to_motor_front_center: "sensor_to_motor ''front_center'' = ''front_center''"
  by (simp add: sensor_to_motor_def)

theorem alert_replaces_running_session_witness:
  "motors pulse_running (sensor_to_motor ''front_center'') \<noteq> None
   \<and> active_alerts pulse_running (sensor_to_motor ''front_center'') = Some 0
   \<and> 0 < length (controls pulse_running)
   \<and> controls (alert pulse_running ''front_center'' ''medium'' ''pulse'') ! 0 = True
   \<and> active_alerts (alert pulse_running ''front_center'' ''medium'' ''pulse'')
        (sensor_to_motor ''front_center'') = Some 1
   \<and> controls (alert pulse_running ''front_center'' ''medium'' ''pulse'') ! 1 = False"
proof -
  have h1: "motors pulse_running (sensor_to_motor ''front_center'') \<noteq> None"
    and h2: "active_alerts pulse_running (sensor_to_motor ''front_center'') = Some 0"
    and h3: "0 < length (controls pulse_running)"
    and l: "length (controls pulse_running) = 1"
    using observe_pulse_running by (simp_all add: observe_def sensor_to_motor_front_center)
  show ?thesis
    using alert_replaces_running_session [OF h1 h2 h3, of "''medium''" "''pulse''"] h1 h2 h3
    by (simp add: Let_def l)
qed

text \<open>
  Claim C2 as stated fails. On \<open>pulse_running\<close> the session of \<^verbatim>\<open>front_center\<close> runs the
  pattern \<^verbatim>\<open>pulse\<close> at intensity \<^verbatim>\<open>medium\<close> and is in its on-time. A second
  \<^verbatim>\<open>alert('front_center', 'medium', 'pulse')\<close> is not a no-op: it sets the stop flag of
  the running session and starts a second thread at the head of the loop; 151 ms
  later the first thread has returned and the pattern runs anew from its start.
\<close>

theorem alert_same_pattern_restarts:
  "th_pattern (threads pulse_running ! 0) = ''pulse''
   \<and> th_intensity (threads pulse_running ! 0) = ''medium''
   \<and> th_position (threads pulse_running ! 0) = after_on
   \<and> active_alerts pulse_running ''front_center'' = Some 0
   \<and> controls pulse_running ! 0 = False
   \<and> alert pulse_running ''front_center'' ''medium'' ''pulse'' \<noteq> pulse_running
   \<and> controls (alert pulse_running ''front_center'' ''medium'' ''pulse'') ! 0 = True
   \<and> map th_position (threads (alert pulse_running ''front_center'' ''medium'' ''pulse''))
        = [after_on, loop_head]
   \<and> map th_position
        (threads (time_sleep 151 (alert pulse_running ''front_center'' ''medium'' ''pulse'')))
        = [finished, after_on]"
proof -
  have before: "th_pattern (threads pulse_running ! 0) = ''pulse''"
      "th_intensity (threads pulse_running ! 0) = ''medium''"
      "th_position (threads pulse_running ! 0) = after_on"
      "active_alerts pulse_running ''front_center'' = Some 0"
      "controls pulse_running ! 0 = False"
    using observe_pulse_running by (simp_all add: observe_def)
  have after: "controls (alert pulse_running ''front_center'' ''medium'' ''pulse'') ! 0 = True"
      "map th_position (threads (alert pulse_running ''front_center'' ''medium'' ''pulse''))
        = [after_on, loop_head]"
      "map th_position
        (threads (time_sleep 151 (alert pulse_running ''front_center'' ''medium'' ''pulse'')))
        = [finished, after_on]"
    using observe_same_alert by (simp_all add: observe_def Let_def)
  have changed: "alert pulse_running ''front_center'' ''medium'' ''pulse'' \<noteq> pulse_running"
    using before(5) after(1) by auto
  from before after changed show ?thesis by blast
qed

text \<open>
  Claim C4 on the code. \<^verbatim>\<open>alert\<close> sets the stop flag of the prior session and sleeps for
  0.05 s, but a thread looks at its flag only when a sleep of 0.1 s or more ends, and
  \<^verbatim>\<open>alert\<close> neither waits for the thread nor switches the motor off. On
  \<open>pulse_running\<close>, \<^verbatim>\<open>alert('front_center', 'low', 'intermittent')\<close> returns with two
  sessions running on the channel and the motor still on; one millisecond later both
  patterns are in their on-time; and at 300 ms the old thread's final
  \<^verbatim>\<open>_motor_off\<close> switches the motor off in the middle of the new pattern's on-time
  (150 ms to 350 ms).
\<close>

theorem alert_overlapping_sessions:
  "length (running_sessions pulse_running ''front_center'') = 1
   \<and> motor_states pulse_running ''front_center'' = Some True
   \<and> length (running_sessions (alert pulse_running ''front_center'' ''low'' ''intermittent'')
        ''front_center'') = 2
   \<and> motor_states (alert pulse_running ''front_center'' ''low'' ''intermittent'')
        ''front_center'' = Some True
   \<and> map th_position
        (threads (time_sleep 1 (alert pulse_running ''front_center'' ''low'' ''intermittent'')))
        = [after_on, after_on]
   \<and> map th_position
        (threads (time_sleep 151 (alert pulse_running ''front_center'' ''low'' ''intermittent'')))
        = [finished, after_on]
   \<and> map th_wake
        (threads (time_sleep 151 (alert pulse_running ''front_center'' ''low'' ''intermittent'')))
        = [300, 350]
   \<and> clock (time_sleep 151 (alert pulse_running ''front_center'' ''low'' ''intermittent'')) = 301
   \<and> motor_states (time_sleep 151 (alert pulse_running ''front_center'' ''low'' ''intermittent''))
        ''front_center'' = Some False"
  using observe_pulse_running observe_other_alert
  by (simp add: observe_def Let_def running_sessions_def)

lemma ground_alert_motor:
  assumes "(i, p) = (''high'', ''rapid'') \<or> (i, p) = (''medium'', ''pulse'')
           \<or> (i, p) = (''low'', ''intermittent'')"
  shows "map th_motor_name (threads (alert (HapticController Config) ''front_lower'' i p))
           = [''front_center'']"
    and "active_alerts (alert (HapticController Config) ''front_lower'' i p) ''front_center'' = Some 0"
    and "active_alerts (alert (HapticController Config) ''front_lower'' i p) ''front_lower'' = None"
    and "motor_states (time_sleep 1 (alert (HapticController Config) ''front_lower'' i p))
           ''front_center'' = Some True"
    and "motor_states (time_sleep 1 (alert (HapticController Config) ''front_lower'' i p))
           ''front_lower'' = Some False"
proof -
  from assms consider "i = ''high'' \<and> p = ''rapid''" | "i = ''medium'' \<and> p = ''pulse''"
    | "i = ''low'' \<and> p = ''intermittent''" by auto
  then have "map th_motor_name (threads (alert (HapticController Config) ''front_lower'' i p))
           = [''front_center'']
    \<and> active_alerts (alert (HapticController Config) ''front_lower'' i p) ''front_center'' = Some 0
    \<and> active_alerts (alert (HapticController Config) ''front_lower'' i p) ''front_lower'' = None
    \<and> motor_states (time_sleep 1 (alert (HapticController Config) ''front_lower'' i p))
           ''front_center'' = Some True
    \<and> motor_states (time_sleep 1 (alert (HapticController Config) ''front_lower'' i p))
           ''front_lower'' = Some False"
  proof cases
    case 1
    then show ?thesis by (simp only:) code_simp
  next
    case 2
    then show ?thesis by (simp only:) code_simp
  next
    case 3
    then show ?thesis by (simp only:) code_simp
  qed
  then show "map th_motor_name (threads (alert (HapticController Config) ''front_lower'' i p))
           = [''front_center'']"
    and "active_alerts (alert (HapticController Config) ''front_lower'' i p) ''front_center'' = Some 0"
    and "active_alerts (alert (HapticController Config) ''front_lower'' i p) ''front_lower'' = None"
    and "motor_states (time_sleep 1 (alert (HapticController Config) ''front_lower'' i p))
           ''front_center'' = Some True"
    and "motor_states (time_sleep 1 (alert (HapticController Config) ''front_lower'' i p))
           ''front_lower'' = Some False"
    by blast+
qed

text \<open>
  Claim C1 on the code. \<^verbatim>\<open>_process_ground_hazard\<close> passes the motor name
  \<^verbatim>\<open>'front_lower'\<close> where \<^verbatim>\<open>alert\<close> expects a sensor name; the table of
  \<^verbatim>\<open>_sensor_to_motor\<close> has no such key and falls back to \<^verbatim>\<open>'front_center'\<close>. For every
  hazard, of any severity, the alert started from the initial state runs on the motor
  \<^verbatim>\<open>front_center\<close>: the motor \<^verbatim>\<open>front_lower\<close> gets no session and stays off.
\<close>

theorem ground_hazard_drives_center_motor:
  "sensor_to_motor ''front_lower'' = ''front_center''
   \<and> map th_motor_name (threads (haptic (process_ground_hazard (PathSense Config) hz)))
        = [''front_center'']
   \<and> active_alerts (haptic (process_ground_hazard (PathSense Config) hz)) ''front_center'' = Some 0
   \<and> active_alerts (haptic (process_ground_hazard (PathSense Config) hz)) ''front_lower'' = None
   \<and> motor_states (time_sleep 1 (haptic (process_ground_hazard (PathSense Config) hz)))
        ''front_center'' = Some True
   \<and> motor_states (time_sleep 1 (haptic (process_ground_hazard (PathSense Config) hz)))
        ''front_lower'' = Some False"
proof -
  have m: "sensor_to_motor ''front_lower'' = ''front_center''"
    by (simp add: sensor_to_motor_def)
  obtain i p where ip: "(i, p) = (''high'', ''rapid'') \<or> (i, p) = (''medium'', ''pulse'')
           \<or> (i, p) = (''low'', ''intermittent'')"
    and h: "haptic (process_ground_hazard (PathSense Config) hz)
        = alert (HapticController Config) ''front_lower'' i p"
    by (cases "severity hz = ''critical''"; cases "severity hz = ''warning''")
       (auto simp: process_ground_hazard_def PathSense_def)
  show ?thesis
    using m ground_alert_motor [OF ip] by (simp only: h) 
qed

subsection \<open>Detection loop: zones\<close>

lemma adjust_for_temperature_Some:
  "\<exists>d'. adjust_for_temperature w (Some d) t = Some d'"
  by (simp add: adjust_for_temperature_def Let_def)

text \<open>
  Claim C3, as the code has it. With the thresholds of \<^verbatim>\<open>Config\<close> and \<open>d\<close> the conditioned
  reading: \<open>d < 0.5\<close> is Danger (alert high/rapid, event \<^verbatim>\<open>danger\<close>); else \<open>d < 1.5\<close> is
  Warning (alert medium/pulse, event \<^verbatim>\<open>warning\<close>); else \<open>d < 3.0\<close> is Alert (alert
  low/intermittent, event \<^verbatim>\<open>alert\<close>); else Clear (the sensor's alert is stopped). An absent
  reading is not classified: the loop over the readings skips it and calls neither
  \<^verbatim>\<open>alert\<close> nor \<^verbatim>\<open>stop\<close> for its sensor.
\<close>

theorem process_obstacle_zones:
  assumes "ps_config s = Config"
  shows "(let d = the (adjust_for_temperature (winter s) (Some distance) None);
              s' = process_obstacle s n distance
          in (d < 0.5 \<longrightarrow>
                haptic s' = alert (haptic s) n ''high'' ''rapid''
                \<and> events s' = events s @ [(''danger'', n, logged_distance d)])
           \<and> (0.5 \<le> d \<and> d < 1.5 \<longrightarrow>
                haptic s' = alert (haptic s) n ''medium'' ''pulse''
                \<and> events s' = events s @ [(''warning'', n, logged_distance d)])
           \<and> (1.5 \<le> d \<and> d < 3.0 \<longrightarrow>
                haptic s' = alert (haptic s) n ''low'' ''intermittent''
                \<and> events s' = events s @ [(''alert'', n, logged_distance d)])
           \<and> (3.0 \<le> d \<longrightarrow> haptic s' = stop (haptic s) n \<and> events s' = events s))
         \<and> process_obstacles s ((n, None) # rest) = process_obstacles s rest"
  using assms by (simp add: process_obstacle_def Let_def Config_def)

theorem process_obstacle_zones_witness:
  "ps_config (PathSense Config) = Config
   \<and> the (adjust_for_temperature (winter (PathSense Config)) (Some 0.30) None) = 0.29
   \<and> haptic (process_obstacle (PathSense Config) ''front_center'' 0.30)
       = alert (haptic (PathSense Config)) ''front_center'' ''high'' ''rapid''
   \<and> the (adjust_for_temperature (winter (PathSense Config)) (Some 1.00) None) = 0.97
   \<and> haptic (process_obstacle (PathSense Config) ''front_center'' 1.00)
       = alert (haptic (PathSense Config)) ''front_center'' ''medium'' ''pulse''
   \<and> the (adjust_for_temperature (winter (PathSense Config)) (Some 2.50) None) = 2.41
   \<and> haptic (process_obstacle (PathSense Config) ''front_center'' 2.50)
       = alert (haptic (PathSense Config)) ''front_center'' ''low'' ''intermittent''
   \<and> the (adjust_for_temperature (winter (PathSense Config)) (Some 3.50) None) = 3.38
   \<and> haptic (process_obstacle (PathSense Config) ''front_center'' 3.50)
       = stop (haptic (PathSense Config)) ''front_center''"
proof -
  have c: "ps_config (PathSense Config) = Config"
    by (simp add: PathSense_def)
  have a: "the (adjust_for_temperature (winter (PathSense Config)) (Some 0.30) None) = 0.29"
      "the (adjust_for_temperature (winter (PathSense Config)) (Some 1.00) None) = 0.97"
      "the (adjust_for_temperature (winter (PathSense Config)) (Some 2.50) None) = 2.41"
      "the (adjust_for_temperature (winter (PathSense Config)) (Some 3.50) None) = 3.38"
    by (simp_all add: PathSense_def WinterOptimizer_def Config_def adjust_for_temperature_def
          py_round_def Let_def)
  show ?thesis
    using c a process_obstacle_zones [OF c, of "0.30" "''front_center''" "[]"]
      process_obstacle_zones [OF c, of "1.00" "''front_center''" "[]"]
      process_obstacle_zones [OF c, of "2.50" "''front_center''" "[]"]
      process_obstacle_zones [OF c, of "3.50" "''front_center''" "[]"]
    by (simp add: Let_def)
qed

lemma observe_danger_seen:
  "(let s = danger_seen
    in (observe (haptic s) ''front_center'', events s, sensor_history s ''front_center'',
        observe (haptic (detection_iteration s (cycle_readings None))) ''front_center'',
        observe (haptic (detection_iteration s (cycle_readings (Some 3.50)))) ''front_center'')) =
     (([\<lparr>th_motor_name = ''front_center'', th_intensity = ''high'', th_pattern = ''rapid'',
         th_control = 0, th_position = after_on, th_wake = 100\<rparr>],
       [False], 100, Some True, Some 0, Some 16),
      [(''danger'', ''front_center'', logged_distance 0.29)],
      Some [0.30],
      ([\<lparr>th_motor_name = ''front_center'', th_intensity = ''high'', th_pattern = ''rapid'',
         th_control = 0, th_position = loop_head, th_wake = 200\<rparr>],
       [False], 200, Some False, Some 0, Some 16),
      ([\<lparr>th_motor_name = ''front_center'', th_intensity = ''high'', th_pattern = ''rapid'',
         th_control = 0, th_position = finished, th_wake = 100\<rparr>],
       [True], 200, Some False, Some 0, Some 16))"
  unfolding danger_seen_def by code_simp

text \<open>
  Claim C3 as stated fails in its last part. After a cycle that raised a Danger alert on
  \<^verbatim>\<open>front_center\<close>, a cycle whose reading for that sensor is absent leaves the session
  running with its stop flag clear, while a cycle with a Clear reading (3.50 m) sets the
  flag and ends the session.
\<close>

theorem absent_reading_keeps_alert:
  "running_sessions (haptic danger_seen) ''front_center'' \<noteq> []
   \<and> controls (haptic danger_seen) ! 0 = False
   \<and> running_sessions (haptic (detection_iteration danger_seen (cycle_readings None)))
        ''front_center'' \<noteq> []
   \<and> controls (haptic (detection_iteration danger_seen (cycle_readings None))) ! 0 = False
   \<and> running_sessions (haptic (detection_iteration danger_seen (cycle_readings (Some 3.50))))
        ''front_center'' = []
   \<and> controls (haptic (detection_iteration danger_seen (cycle_readings (Some 3.50)))) ! 0 = True"
  using observe_danger_seen
  by (simp add: observe_def Let_def running_sessions_def)

subsection \<open>Detection loop: sensor history\<close>

lemma filter_snow_particles_keys:
  assumes "distinct (map fst rs)"
  shows "map fst (filter_snow_particles w rs hb) = map fst rs"
proof (cases "snow_filter_enabled w")
  case True
  then show ?thesis
    using assms by (simp add: filter_snow_particles_enabled comp_def split_beta)
next
  case False
  then show ?thesis by (simp add: filter_snow_particles_def)
qed

lemma filter_snow_particles_raw:
  assumes "distinct (map fst rs)"
    and "map_of (filter_snow_particles w rs hb) n = Some (Some d)"
  shows "map_of rs n = Some (Some d)"
proof (cases "snow_filter_enabled w")
  case False
  then show ?thesis using assms by (simp add: filter_snow_particles_def)
next
  case True
  have m: "map_of (map (\<lambda>(k, c). (k, filter_reading hb k c)) rs) n = Some (Some d)"
    using assms True by (simp add: filter_snow_particles_enabled)
  then obtain c where c: "(n, c) \<in> set rs" and f: "filter_reading hb n c = Some d"
    by (auto dest!: map_of_SomeD)
  from f filter_reading_cases [of hb n c] have "c = Some d" by auto
  with c assms(1) show ?thesis by simp
qed

lemma update_history_distinct:
  assumes "distinct (map fst rs)"
  shows "update_history rs hist n =
     (case map_of rs n of
        Some (Some d) \<Rightarrow> Some (py_last_n 5 ((case hist n of None \<Rightarrow> [] | Some h \<Rightarrow> h) @ [d]))
      | _ \<Rightarrow> hist n)"
  using assms
proof (induction rs arbitrary: hist)
  case Nil
  then show ?case by simp
next
  case (Cons p rs)
  obtain k v where p: "p = (k, v)" by (cases p)
  have d: "distinct (map fst rs)" and fresh: "k \<notin> fst ` set rs"
    using Cons.prems p by auto
  have none: "map_of rs k = None"
    using fresh by (simp add: map_of_eq_None_iff)
  show ?case
  proof (cases v)
    case None
    then show ?thesis
      using Cons.IH [OF d, of hist] none p by (auto split: option.splits)
  next
    case (Some x)
    define hist3 where
      "hist3 = hist(k \<mapsto> py_last_n 5 ((case hist k of None \<Rightarrow> [] | Some h \<Rightarrow> h) @ [x]))"
    have step: "update_history (p # rs) hist = update_history rs hist3"
      by (auto simp: p Some hist3_def Let_def split: option.splits)
    have ih: "update_history (p # rs) hist n =
        (case map_of rs n of
           Some (Some d) \<Rightarrow> Some (py_last_n 5 ((case hist3 n of None \<Rightarrow> [] | Some h \<Rightarrow> h) @ [d]))
         | _ \<Rightarrow> hist3 n)"
      using Cons.IH [OF d, of hist3] by (simp only: step)
    show ?thesis
    proof (cases "n = k")
      case True
      have "update_history (p # rs) hist k =
          Some (py_last_n 5 ((case hist k of None \<Rightarrow> [] | Some h \<Rightarrow> h) @ [x]))"
        using ih True none by (simp add: hist3_def)
      moreover have "map_of (p # rs) k = Some (Some x)"
        by (simp add: p Some)
      ultimately show ?thesis
        using True by (simp only: option.case)
    next
      case False
      have "hist3 n = hist n" using False by (simp add: hist3_def)
      moreover have "map_of (p # rs) n = map_of rs n"
        using False by (simp add: p)
      ultimately show ?thesis
        using ih by (simp only:)
    qed
  qed
qed

lemma update_history_bounded:
  assumes "bounded_history hist"
  shows "bounded_history (update_history rs hist)"
  using assms
proof (induction rs arbitrary: hist)
  case Nil
  then show ?case by simp
next
  case (Cons p rs)
  obtain k v where p: "p = (k, v)" by (cases p)
  show ?case
  proof (cases v)
    case None
    then show ?thesis using Cons p by simp
  next
    case (Some x)
    define hist3 where
      "hist3 = hist(k \<mapsto> py_last_n 5 ((case hist k of None \<Rightarrow> [] | Some h \<Rightarrow> h) @ [x]))"
    have step: "update_history (p # rs) hist = update_history rs hist3"
      by (auto simp: p Some hist3_def Let_def split: option.splits)
    have "bounded_history hist3"
      using Cons.prems by (auto simp: bounded_history_def hist3_def py_last_n_def)
    then show ?thesis
      using Cons.IH [of hist3] by (simp add: step)
  qed
qed

lemma process_obstacle_history:
  "sensor_history (process_obstacle s n d) = sensor_history s"
  by (simp add: process_obstacle_def Let_def)

lemma process_obstacles_history:
  "sensor_history (process_obstacles s rs) = sensor_history s"
  by (induction s rs rule: process_obstacles.induct) (simp_all add: process_obstacle_history)

lemma process_ground_hazard_history:
  "sensor_history (process_ground_hazard s hz) = sensor_history s"
  by (simp add: process_ground_hazard_def Let_def)

lemma detection_iteration_history:
  "sensor_history (detection_iteration s sensor_data) =
     update_history
       (if SNOW_FILTER_ENABLED (ps_config s)
        then filter_snow_particles (winter s) sensor_data (sensor_history s)
        else sensor_data)
       (sensor_history s)"
  by (simp add: detection_iteration_def Let_def process_obstacles_history
        process_ground_hazard_history split: sum.split option.split)

lemma detection_loop_bounded:
  assumes "bounded_history (sensor_history s)"
  shows "bounded_history (sensor_history (detection_loop s cycles))"
  using assms
  by (induction cycles arbitrary: s)
     (simp_all add: detection_iteration_history update_history_bounded)

lemma PathSense_bounded: "bounded_history (sensor_history (PathSense cfg))"
  by (simp add: bounded_history_def PathSense_def)

text \<open>
  Claim C9, as the code has it. In one detection cycle (readings with distinct sensor
  names) the history of a sensor gets the sensor's noise-filtered reading appended, if
  that reading is present, and is then cut to its last 5 entries, the oldest going
  first; it is unchanged if the filtered reading is absent. The entry appended is
  the raw reading of the cycle itself: the history is updated before
  \<^verbatim>\<open>_process_obstacle\<close> applies the temperature compensation, which never reaches the
  history. From the initial state on, after any number of cycles, no history list is
  longer than 5.
\<close>

theorem sensor_history_update:
  assumes "distinct (map fst sensor_data)"
  shows "(let filtered = (if SNOW_FILTER_ENABLED (ps_config s)
                          then filter_snow_particles (winter s) sensor_data (sensor_history s)
                          else sensor_data);
              old = (case sensor_history s n of None \<Rightarrow> [] | Some h \<Rightarrow> h)
          in sensor_history (detection_iteration s sensor_data) n =
               (case map_of filtered n of
                  Some (Some d) \<Rightarrow> Some (drop (length (old @ [d]) - 5) (old @ [d]))
                | _ \<Rightarrow> sensor_history s n)
             \<and> (\<forall>d. map_of filtered n = Some (Some d) \<longrightarrow> map_of sensor_data n = Some (Some d)))
         \<and> (\<forall>m h. sensor_history (detection_loop (PathSense cfg) cycles) m = Some h
                \<longrightarrow> length h \<le> 5)"
proof -
  define filtered where
    "filtered = (if SNOW_FILTER_ENABLED (ps_config s)
                 then filter_snow_particles (winter s) sensor_data (sensor_history s)
                 else sensor_data)"
  have keys: "distinct (map fst filtered)"
    using assms by (simp add: filtered_def filter_snow_particles_keys)
  have a: "sensor_history (detection_iteration s sensor_data) n =
        (case map_of filtered n of
           Some (Some d) \<Rightarrow>
             Some (py_last_n 5 ((case sensor_history s n of None \<Rightarrow> [] | Some h \<Rightarrow> h) @ [d]))
         | _ \<Rightarrow> sensor_history s n)"
    using update_history_distinct [OF keys]
    by (simp add: detection_iteration_history filtered_def [symmetric])
  have b: "\<forall>d. map_of filtered n = Some (Some d) \<longrightarrow> map_of sensor_data n = Some (Some d)"
    using assms filter_snow_particles_raw [OF assms] by (auto simp: filtered_def)
  have c: "\<forall>m h. sensor_history (detection_loop (PathSense cfg) cycles) m = Some h
                \<longrightarrow> length h \<le> 5"
    using detection_loop_bounded [OF PathSense_bounded, of cfg cycles]
    by (simp add: bounded_history_def)
  have a': "sensor_history (detection_iteration s sensor_data) n =
        (case map_of filtered n of
           Some (Some d) \<Rightarrow>
             Some (drop (length ((case sensor_history s n of None \<Rightarrow> [] | Some h \<Rightarrow> h) @ [d]) - 5)
                     ((case sensor_history s n of None \<Rightarrow> [] | Some h \<Rightarrow> h) @ [d]))
         | _ \<Rightarrow> sensor_history s n)"
    using a by (simp only: py_last_n_def)
  show ?thesis
    unfolding Let_def filtered_def [symmetric]
    using a' b c by blast
qed

lemma five_cycles_front_center:
  "(let s = five_cycles
    in (sensor_history s ''front_center'',
        map_of (if SNOW_FILTER_ENABLED (ps_config s)
                then filter_snow_particles (winter s) (cycle_readings (Some 3.55)) (sensor_history s)
                else cycle_readings (Some 3.55)) ''front_center'')) =
     (Some [3.50, 3.51, 3.52, 3.53, 3.54], Some (Some 3.55))"
  unfolding five_cycles_def by code_simp

theorem sensor_history_update_witness:
  "distinct (map fst (cycle_readings (Some 3.55)))
   \<and> sensor_history five_cycles ''front_center'' = Some [3.50, 3.51, 3.52, 3.53, 3.54]
   \<and> sensor_history (detection_iteration five_cycles (cycle_readings (Some 3.55))) ''front_center''
       = Some [3.51, 3.52, 3.53, 3.54, 3.55]"
proof -
  have d: "distinct (map fst (cycle_readings (Some 3.55)))"
    by (simp add: cycle_readings_def)
  have old: "sensor_history five_cycles ''front_center'' = Some [3.50, 3.51, 3.52, 3.53, 3.54]"
    and new: "map_of (if SNOW_FILTER_ENABLED (ps_config five_cycles)
                then filter_snow_particles (winter five_cycles) (cycle_readings (Some 3.55))
                       (sensor_history five_cycles)
                else cycle_readings (Some 3.55)) ''front_center'' = Some (Some 3.55)"
    using five_cycles_front_center by (simp_all add: Let_def)
  have "sensor_history (detection_iteration five_cycles (cycle_readings (Some 3.55))) ''front_center''
       = Some [3.51, 3.52, 3.53, 3.54, 3.55]"
    using sensor_history_update [OF d, of five_cycles "''front_center''" Config "[]"]
    by (simp add: Let_def old new)
  with d old show ?thesis by simp
qed

text \<open>
  Claim C9 as stated fails in its last part. In a first cycle that reads 1.00 m on
  \<^verbatim>\<open>front_center\<close>, at the default temperature of 0 degrees, the entry stored in the
  history is 1.00, while the conditioned reading, which the zone classifier uses and
  logs, is 0.97.
\<close>

theorem history_stores_unconditioned_reading:
  "map_of (cycle_readings (Some 1.00)) ''front_center'' = Some (Some 1.00)
   \<and> sensor_history first_cycle ''front_center'' = Some [1.00]
   \<and> adjust_for_temperature (winter (PathSense Config)) (Some 1.00) None = Some 0.97
   \<and> events first_cycle = [(''warning'', ''front_center'', logged_distance 0.97)]"
  unfolding first_cycle_def by code_simp

end
